theory Spec2Isabelle
  imports Complex_Main
begin

section \<open>Push-up counter (script.js): data model\<close>

text \<open>
  JavaScript numbers are modelled as \<^typ>\<open>real\<close>: finite and exact. Rounding, NaN and
  infinities of IEEE doubles are outside the model. The repetition count, which the script
  only ever sets to 0 or increments, is a \<^typ>\<open>nat\<close>.

  The page runs one piece of a handler at a time, from one \<open>await\<close> to the next. The
  handlers that start the camera, load the model and calibrate are modelled piece by
  piece, so that other events may come in between; an iteration of the detection loop is
  taken as a single event.

  A keypoint as the pose detector delivers it: coordinates, and a confidence that is read
  from the field \<open>score\<close>, else from \<open>probability\<close>, else taken as 0.
\<close>

record keypoint =
  kp_x :: real
  kp_y :: real
  kp_score :: "real option"
  kp_probability :: "real option"

record pose =
  keypoints :: "keypoint list"

text \<open>The object that \<open>getKey\<close> builds: \<open>{ x, y, score }\<close>.\<close>

record key =
  key_x :: real
  key_y :: real
  key_score :: real

text \<open>
  Reading \<open>pose.keypoints[idx]\<close> past the end gives \<open>undefined\<close>, and the property access
  on it throws a TypeError, as does reading a field of the \<open>null\<close> baseline. A rejected
  promise of the detector is the second error.
\<close>

datatype error = TypeError | DetectorError

text \<open>
  The objects pushed to \<open>collected\<close> (line 150) and the \<open>baseline\<close> object (lines
  159-160), which has the same three fields and two more.
\<close>

record sample =
  shoulderY :: real
  hipY :: real
  shoulderWidth :: real

record Baseline = sample +
  bodyHeight :: real
  shoulderDropThreshold :: real

text \<open>\<open>lastPosition\<close> holds the string \<open>'up'\<close> or \<open>'down'\<close>.\<close>

datatype position = Up | Down

text \<open>
  The texts written to \<open>feedbackText.textContent\<close>, one constructor per literal of the
  script, in the order of their lines; \<open>InitialText\<close> is whatever the page shows before the
  script writes.
\<close>

datatype feedback =
    InitialText
  | CountReset                \<comment> \<open>line 41, "Contagem zerada."\<close>
  | CameraActive              \<comment> \<open>line 61\<close>
  | CameraError               \<comment> \<open>line 64\<close>
  | CameraOff                 \<comment> \<open>line 78\<close>
  | LoadingModel              \<comment> \<open>line 83\<close>
  | ModelLoaded               \<comment> \<open>line 87\<close>
  | OpenCameraFirst           \<comment> \<open>line 91\<close>
  | DetectionStopped          \<comment> \<open>line 104\<close>
  | Preparing                 \<comment> \<open>line 122\<close>
  | CalibrationFailed         \<comment> \<open>line 131\<close>
  | DetectionStarted          \<comment> \<open>line 136\<close>
  | ValidRep nat              \<comment> \<open>line 263, with the new total\<close>
  | HoldLonger                \<comment> \<open>line 266\<close>
  | TooFast                   \<comment> \<open>line 267\<close>
  | AdjustPosture             \<comment> \<open>line 271\<close>
  | DescentDetected           \<comment> \<open>line 273\<close>
  | ReturnToTop               \<comment> \<open>line 275\<close>

text \<open>
  The script's global variables (lines 15-28) and the feedback text. \<open>stream\<close> and
  \<open>detector\<close> record whether the variable is non-null. The other page elements are written
  by \<open>updateUI\<close> from these variables alone and are not modelled; nor is \<open>rafId\<close>.
\<close>

record state =
  stream :: bool
  running :: bool
  pushCount :: nat
  detector :: bool
  baseline :: "Baseline option"
  lastPosition :: position
  lastRepTime :: real
  lastDownTime :: real
  feedbackText :: feedback

definition initialState :: state where
  "initialState =
     \<lparr>stream = False, running = False, pushCount = 0, detector = False, baseline = None,
      lastPosition = Up, lastRepTime = 0, lastDownTime = 0, feedbackText = InitialText\<rparr>"

text \<open>Lines 31-35, and the local constant \<open>tries\<close> of line 141.\<close>

definition MIN_REP_INTERVAL_MS :: real where "MIN_REP_INTERVAL_MS = 800"
definition MIN_DOWN_HOLD_MS :: real where "MIN_DOWN_HOLD_MS = 250"
definition DOWN_ANGLE_THRESHOLD :: real where "DOWN_ANGLE_THRESHOLD = 90"
definition UP_ANGLE_THRESHOLD :: real where "UP_ANGLE_THRESHOLD = 160"
definition SHOULDER_DROP_RATIO :: real where "SHOULDER_DROP_RATIO = 0.18"
definition tries :: nat where "tries = 6"

section \<open>Geometry primitives\<close>

text \<open>The confidence of a keypoint: \<open>k.score ?? k.probability ?? 0\<close> (line 166).\<close>

definition confidence :: "keypoint \<Rightarrow> real" where
  "confidence k =
     (case kp_score k of Some s \<Rightarrow> s
      | None \<Rightarrow> (case kp_probability k of Some q \<Rightarrow> q | None \<Rightarrow> 0))"

text \<open>\<open>getKey\<close>, lines 164-167.\<close>

definition getKey :: "pose \<Rightarrow> nat \<Rightarrow> error + key" where
  "getKey p idx =
     (if idx < length (keypoints p) then
        (let k = keypoints p ! idx in
         Inr \<lparr>key_x = kp_x k, key_y = kp_y k, key_score = confidence k\<rparr>)
      else Inl TypeError)"

text \<open>\<open>getMidpointY\<close>, lines 169-174; \<open>None\<close> is the \<open>null\<close> it returns.\<close>

definition getMidpointY :: "pose \<Rightarrow> nat \<Rightarrow> nat \<Rightarrow> error + real option" where
  "getMidpointY p aIdx bIdx =
     (case getKey p aIdx of Inl e \<Rightarrow> Inl e
      | Inr a \<Rightarrow>
        (case getKey p bIdx of Inl e \<Rightarrow> Inl e
         | Inr b \<Rightarrow>
           if key_score a < 0.35 \<or> key_score b < 0.35 then Inr None
           else Inr (Some ((key_y a + key_y b) / 2))))"

text \<open>\<open>Math.hypot\<close> on two arguments.\<close>

definition hypot :: "real \<Rightarrow> real \<Rightarrow> real" where
  "hypot u v = sqrt (u * u + v * v)"

text \<open>\<open>angleDeg\<close>, lines 176-187.\<close>

definition angleDeg :: "key \<Rightarrow> key \<Rightarrow> key \<Rightarrow> real" where
  "angleDeg a b c =
     (let abx = key_x a - key_x b;
          aby = key_y a - key_y b;
          cbx = key_x c - key_x b;
          cby = key_y c - key_y b;
          dot = abx * cbx + aby * cby;
          mag1 = hypot abx aby;
          mag2 = hypot cbx cby
      in if mag1 = 0 \<or> mag2 = 0 then 180
         else (let cos' = max (- 1) (min 1 (dot / (mag1 * mag2)))
               in arccos cos' * 180 / pi))"

section \<open>Calibration\<close>

text \<open>
  What one call of \<open>detector.estimatePoses\<close> gives: the promise rejects, or resolves to
  \<open>null\<close>/\<open>undefined\<close> (\<open>None\<close>) or to a list of poses.
\<close>

datatype response = Rejects | Resolves "pose list option"

text \<open>
  Line 149: \<open>Math.abs(getKey(p,5).x - getKey(p,6).x) || 1\<close>. The operator \<open>||\<close> replaces
  the falsy value 0 by 1 and keeps every other number.
\<close>

definition attemptShoulderWidth :: "key \<Rightarrow> key \<Rightarrow> real" where
  "attemptShoulderWidth l r =
     (let w = \<bar>key_x l - key_x r\<bar> in if w = 0 then 1 else w)"

text \<open>
  Lines 146-150, for the pose \<open>p\<close> of one attempt: the sample that is pushed, or \<open>None\<close>
  when nothing is pushed. The test \<open>s && hip && shoulderWidth > 10\<close> is on the
  truthiness of \<open>s\<close> and \<open>hip\<close>: \<open>null\<close> and the number 0 are both falsy.
\<close>

definition calibrationSample :: "pose \<Rightarrow> error + sample option" where
  "calibrationSample p =
     (case getMidpointY p 5 6 of Inl e \<Rightarrow> Inl e
      | Inr s \<Rightarrow>
        (case getMidpointY p 11 12 of Inl e \<Rightarrow> Inl e
         | Inr hip \<Rightarrow>
           (case getKey p 5 of Inl e \<Rightarrow> Inl e
            | Inr k5 \<Rightarrow>
              (case getKey p 6 of Inl e \<Rightarrow> Inl e
               | Inr k6 \<Rightarrow>
                 (let sw = attemptShoulderWidth k5 k6 in
                  case s of None \<Rightarrow> Inr None
                  | Some sv \<Rightarrow>
                    (case hip of None \<Rightarrow> Inr None
                     | Some hv \<Rightarrow>
                       if sv \<noteq> 0 \<and> hv \<noteq> 0 \<and> sw > 10
                       then Inr (Some \<lparr>shoulderY = sv, hipY = hv, shoulderWidth = sw\<rparr>)
                       else Inr None))))))"

text \<open>
  The loop of lines 143-153 over the detector's answers to its successive calls; the
  delay of line 152 has no effect on the state.
\<close>

fun collectSamples :: "response list \<Rightarrow> sample list \<Rightarrow> error + sample list" where
  "collectSamples [] collected = Inr collected"
| "collectSamples (Rejects # rs) collected = Inl DetectorError"
| "collectSamples (Resolves None # rs) collected = collectSamples rs collected"
| "collectSamples (Resolves (Some []) # rs) collected = collectSamples rs collected"
| "collectSamples (Resolves (Some (p # ps)) # rs) collected =
     (case calibrationSample p of Inl e \<Rightarrow> Inl e
      | Inr None \<Rightarrow> collectSamples rs collected
      | Inr (Some smp) \<Rightarrow> collectSamples rs (collected @ [smp]))"

text \<open>
  \<open>calibrateBaseline\<close>, lines 140-162. \<open>estimatePoses i\<close> is the detector's answer to the
  call of iteration \<open>i\<close>. The iterations are separated by \<open>await\<close>s, but they write the
  local list \<open>collected\<close> only, and of the globals they read only \<open>detector\<close>, which is
  never set back to \<open>null\<close>: with a \<open>null\<close> detector line 144 throws a TypeError in the first
  iteration. The state is the one in which the last piece (lines 154-161) runs; the
  result is the boolean returned and that state, in which only \<open>baseline\<close> may have been
  assigned.
\<close>

definition calibrateBaseline :: "(nat \<Rightarrow> response) \<Rightarrow> state \<Rightarrow> error + bool \<times> state" where
  "calibrateBaseline estimatePoses st =
     (if \<not> detector st then Inl TypeError
      else case collectSamples (map estimatePoses [0..<tries]) [] of Inl e \<Rightarrow> Inl e
      | Inr collected \<Rightarrow>
        if length collected = 0 then Inr (False, st)
        else
          (let avgShoulderY = foldl (\<lambda>a b. a + shoulderY b) 0 collected / real (length collected);
               avgHipY = foldl (\<lambda>a b. a + hipY b) 0 collected / real (length collected);
               avgShoulderW = foldl (\<lambda>a b. a + shoulderWidth b) 0 collected / real (length collected);
               bh = max 20 \<bar>avgHipY - avgShoulderY\<bar>
           in Inr (True,
                st\<lparr>baseline := Some \<lparr>shoulderY = avgShoulderY, hipY = avgHipY,
                       shoulderWidth = avgShoulderW, bodyHeight = bh,
                       shoulderDropThreshold = bh * SHOULDER_DROP_RATIO\<rparr>\<rparr>)))"

section \<open>Per-frame evaluation\<close>

text \<open>
  The values that lines 237-245 of \<open>evaluateForPushUp\<close> compute from the pose alone.
\<close>

record signals =
  sg_shoulderMidY :: real
  sg_elbowAvg :: real
  sg_wristsUnder :: bool

text \<open>Lines 244-245.\<close>

definition wristsUnder :: "key \<Rightarrow> key \<Rightarrow> key \<Rightarrow> key \<Rightarrow> bool" where
  "wristsUnder leftShoulder rightShoulder leftWrist rightWrist =
     (let sw = \<bar>key_x leftShoulder - key_x rightShoulder\<bar> in
      (key_score leftWrist \<ge> 0.25 \<and> \<bar>key_x leftWrist - key_x leftShoulder\<bar> < sw * 0.9)
      \<and> (key_score rightWrist \<ge> 0.25 \<and> \<bar>key_x rightWrist - key_x rightShoulder\<bar> < sw * 0.9))"

text \<open>
  Lines 229-245: the six keypoints are read first (each read may throw), then low
  shoulder confidence makes the function return at once (\<open>None\<close>).
\<close>

definition frameSignals :: "pose \<Rightarrow> error + signals option" where
  "frameSignals p =
     (case getKey p 5 of Inl e \<Rightarrow> Inl e
      | Inr leftShoulder \<Rightarrow>
     (case getKey p 6 of Inl e \<Rightarrow> Inl e
      | Inr rightShoulder \<Rightarrow>
     (case getKey p 7 of Inl e \<Rightarrow> Inl e
      | Inr leftElbow \<Rightarrow>
     (case getKey p 8 of Inl e \<Rightarrow> Inl e
      | Inr rightElbow \<Rightarrow>
     (case getKey p 9 of Inl e \<Rightarrow> Inl e
      | Inr leftWrist \<Rightarrow>
     (case getKey p 10 of Inl e \<Rightarrow> Inl e
      | Inr rightWrist \<Rightarrow>
        if key_score leftShoulder < 0.35 \<or> key_score rightShoulder < 0.35 then Inr None
        else
          (let elbowAngleL = angleDeg leftShoulder leftElbow leftWrist;
               elbowAngleR = angleDeg rightShoulder rightElbow rightWrist
           in Inr (Some \<lparr>sg_shoulderMidY = (key_y leftShoulder + key_y rightShoulder) / 2,
                         sg_elbowAvg = (elbowAngleL + elbowAngleR) / 2,
                         sg_wristsUnder =
                           wristsUnder leftShoulder rightShoulder leftWrist rightWrist\<rparr>))))))))"

text \<open>Lines 247-249, for a baseline that is present.\<close>

definition shoulderDrop :: "signals \<Rightarrow> Baseline \<Rightarrow> real" where
  "shoulderDrop sg b = sg_shoulderMidY sg - shoulderY b"

definition downDetected :: "signals \<Rightarrow> Baseline \<Rightarrow> bool" where
  "downDetected sg b \<longleftrightarrow>
     sg_elbowAvg sg < DOWN_ANGLE_THRESHOLD
     \<and> shoulderDrop sg b > shoulderDropThreshold b * 0.85
     \<and> sg_wristsUnder sg"

definition upDetected :: "signals \<Rightarrow> Baseline \<Rightarrow> bool" where
  "upDetected sg b \<longleftrightarrow>
     sg_elbowAvg sg > UP_ANGLE_THRESHOLD
     \<and> shoulderDrop sg b < shoulderDropThreshold b * 0.45"

text \<open>
  Lines 251-277: the repetition state machine and the feedback text, from the two
  predicates and the time \<open>now\<close> read by \<open>performance.now()\<close>.
\<close>

definition repTransition :: "bool \<Rightarrow> bool \<Rightarrow> real \<Rightarrow> state \<Rightarrow> state" where
  "repTransition dd ud now st =
     (let st1 = (if dd \<and> lastPosition st = Up
                 then st\<lparr>lastPosition := Down, lastDownTime := now\<rparr> else st)
      in if lastPosition st1 = Down \<and> ud then
           (let held = now - lastDownTime st1;
                sinceLastRep = now - lastRepTime st1
            in if held \<ge> MIN_DOWN_HOLD_MS \<and> sinceLastRep \<ge> MIN_REP_INTERVAL_MS then
                 st1\<lparr>pushCount := pushCount st1 + 1, lastRepTime := now, lastPosition := Up,
                     feedbackText := ValidRep (pushCount st1 + 1)\<rparr>
               else if held < MIN_DOWN_HOLD_MS then st1\<lparr>feedbackText := HoldLonger\<rparr>
               else if sinceLastRep < MIN_REP_INTERVAL_MS then st1\<lparr>feedbackText := TooFast\<rparr>
               else st1)
         else if \<not> dd \<and> \<not> ud then st1\<lparr>feedbackText := AdjustPosture\<rparr>
         else if dd then st1\<lparr>feedbackText := DescentDetected\<rparr>
         else if ud then st1\<lparr>feedbackText := ReturnToTop\<rparr>
         else st1)"

text \<open>
  Lines 247-277 on computed signals. With a \<open>null\<close> baseline the conjunctions of lines
  248 and 249 read \<open>baseline.shoulderDropThreshold\<close>, and throw, exactly when their first
  conjunct holds.
\<close>

definition evaluateSignals :: "signals \<Rightarrow> real \<Rightarrow> state \<Rightarrow> error + state" where
  "evaluateSignals sg now st =
     (case baseline st of
        None \<Rightarrow>
          if sg_elbowAvg sg < DOWN_ANGLE_THRESHOLD \<or> sg_elbowAvg sg > UP_ANGLE_THRESHOLD
          then Inl TypeError
          else Inr (repTransition False False now st)
      | Some b \<Rightarrow> Inr (repTransition (downDetected sg b) (upDetected sg b) now st))"

text \<open>\<open>evaluateForPushUp\<close>, lines 228-278.\<close>

definition evaluateForPushUp :: "pose \<Rightarrow> real \<Rightarrow> state \<Rightarrow> error + state" where
  "evaluateForPushUp p now st =
     (case frameSignals p of Inl e \<Rightarrow> Inl e
      | Inr None \<Rightarrow> Inr st
      | Inr (Some sg) \<Rightarrow> evaluateSignals sg now st)"

section \<open>Commands and the detection loop\<close>

text \<open>The click handler of line 41.\<close>

definition resetCount :: "state \<Rightarrow> state" where
  "resetCount st = st\<lparr>pushCount := 0, feedbackText := CountReset\<rparr>"

text \<open>\<open>stopDetection\<close>, lines 97-105.\<close>

definition stopDetection :: "state \<Rightarrow> state" where
  "stopDetection st =
     st\<lparr>running := False, baseline := None, lastPosition := Up,
        feedbackText := DetectionStopped\<rparr>"

text \<open>\<open>stopCamera\<close>, lines 69-80.\<close>

definition stopCamera :: "state \<Rightarrow> state" where
  "stopCamera st = (stopDetection st)\<lparr>stream := False, feedbackText := CameraOff\<rparr>"

text \<open>
  \<open>startCamera\<close>, lines 54-67, in its pieces: \<open>getUserMedia\<close> resolves and
  \<open>STATE.stream\<close> is set (lines 56-58); \<open>video.play()\<close> resolves (lines 59-62); either
  promise rejects (lines 64-65). The click itself changes nothing.
\<close>

definition startCamera_granted :: "state \<Rightarrow> state" where
  "startCamera_granted st = st\<lparr>stream := True\<rparr>"

definition startCamera_playing :: "state \<Rightarrow> state" where
  "startCamera_playing st = st\<lparr>feedbackText := CameraActive\<rparr>"

definition startCamera_failed :: "state \<Rightarrow> state" where
  "startCamera_failed st = st\<lparr>feedbackText := CameraError\<rparr>"

text \<open>
  \<open>startCountdownAndRun\<close>, lines 117-138, in its two pieces that touch the state. The
  first (lines 118-122) runs at once. The second runs when the countdown and the six
  calibration attempts are over: the end of \<open>calibrateBaseline\<close> and lines 131-137, in
  the state of that moment; the call of \<open>runDetectionLoop\<close> in line 137 changes nothing
  before its first \<open>await\<close>. When \<open>calibrateBaseline\<close> throws, the handler ends there.
\<close>

definition startCountdownAndRun_begin :: "state \<Rightarrow> state" where
  "startCountdownAndRun_begin st = st\<lparr>running := False, feedbackText := Preparing\<rparr>"

definition startCountdownAndRun_resume :: "(nat \<Rightarrow> response) \<Rightarrow> state \<Rightarrow> state" where
  "startCountdownAndRun_resume estimatePoses st =
     (case calibrateBaseline estimatePoses st of Inl e \<Rightarrow> st
      | Inr (ok, st2) \<Rightarrow>
          if \<not> ok then st2\<lparr>feedbackText := CalibrationFailed\<rparr>
          else st2\<lparr>running := True, lastPosition := Up, lastRepTime := 0,
                  feedbackText := DetectionStarted\<rparr>)"

text \<open>
  \<open>startOrStopDetection\<close>, lines 90-95, up to its first \<open>await\<close>: with no detector yet
  that is inside \<open>initPoseModel\<close> (line 83), otherwise inside \<open>startCountdownAndRun\<close>.
\<close>

definition startOrStopDetection :: "state \<Rightarrow> state" where
  "startOrStopDetection st =
     (if \<not> stream st then st\<lparr>feedbackText := OpenCameraFirst\<rparr>
      else if running st then stopDetection st
      else if \<not> detector st then st\<lparr>feedbackText := LoadingModel\<rparr>
      else startCountdownAndRun_begin st)"

text \<open>
  The piece that runs when the model has loaded: the end of \<open>initPoseModel\<close> (lines
  86-87), then line 94 enters \<open>startCountdownAndRun\<close>. When loading fails nothing more
  is written.
\<close>

definition initPoseModel_resume :: "state \<Rightarrow> state" where
  "initPoseModel_resume st =
     startCountdownAndRun_begin (st\<lparr>detector := True, feedbackText := ModelLoaded\<rparr>)"

text \<open>
  \<open>drawPose\<close>, lines 189-226, changes the canvas only, but may throw. \<open>strokeLine(a, b)\<close>
  reads \<open>A.score\<close> of keypoint \<open>a\<close> first, and \<open>B.score\<close> of keypoint \<open>b\<close> only when \<open>A\<close>
  has a score (taken as 0 when missing) of at least 0.35; either read throws when the
  keypoint does not exist. The loop over \<open>drawPoint\<close> stays within the list.
\<close>

definition strokeLine :: "pose \<Rightarrow> nat \<Rightarrow> nat \<Rightarrow> error + unit" where
  "strokeLine p a b =
     (if a < length (keypoints p) then
        (if (case kp_score (keypoints p ! a) of Some s \<Rightarrow> s | None \<Rightarrow> 0) < 0.35 then Inr ()
         else if b < length (keypoints p) then Inr ()
         else Inl TypeError)
      else Inl TypeError)"

fun strokeLines :: "pose \<Rightarrow> (nat \<times> nat) list \<Rightarrow> error + unit" where
  "strokeLines p [] = Inr ()"
| "strokeLines p ((a, b) # ls) =
     (case strokeLine p a b of Inl e \<Rightarrow> Inl e | Inr u \<Rightarrow> strokeLines p ls)"

definition drawPose :: "pose \<Rightarrow> error + unit" where
  "drawPose p =
     strokeLines p
       [(5, 7), (7, 9), (6, 8), (8, 10), (5, 6), (11, 12), (5, 11), (6, 12), (11, 13), (12, 14)]"

text \<open>
  One iteration of \<open>runDetectionLoop\<close>, lines 280-295: \<open>r\<close> is the detector's answer and
  \<open>now\<close> the clock. Whatever is thrown inside \<open>try\<close> is caught and logged, also the
  TypeError of line 283 when there is no detector. The iteration is one event: the state
  that line 281 tests is the state that lines 284-290 read and write.
\<close>

definition runDetectionLoop :: "response \<Rightarrow> real \<Rightarrow> state \<Rightarrow> state" where
  "runDetectionLoop r now st =
     (if \<not> running st then st
      else if \<not> detector st then st
      else case r of
        Rejects \<Rightarrow> st
      | Resolves None \<Rightarrow> st
      | Resolves (Some []) \<Rightarrow> st
      | Resolves (Some (p # ps)) \<Rightarrow>
          (case drawPose p of Inl e \<Rightarrow> st
           | Inr u \<Rightarrow>
             if baseline st \<noteq> None then
               (case evaluateForPushUp p now st of Inl e \<Rightarrow> st | Inr st' \<Rightarrow> st')
             else st))"

text \<open>
  Everything that can happen to the page, one event at a time: the clicks, the pieces
  of the asynchronous handlers as their promises settle, and the animation frames. An
  event is allowed in every state.
\<close>

datatype event =
    CameraGranted
  | CameraPlaying
  | CameraFailed
  | StopCameraClick
  | StartDetectClick
  | ModelReady
  | CalibrationFinished "nat \<Rightarrow> response"
  | ResetCountClick
  | AnimationFrame response real

fun step :: "event \<Rightarrow> state \<Rightarrow> state" where
  "step CameraGranted st = startCamera_granted st"
| "step CameraPlaying st = startCamera_playing st"
| "step CameraFailed st = startCamera_failed st"
| "step StopCameraClick st = stopCamera st"
| "step StartDetectClick st = startOrStopDetection st"
| "step ModelReady st = initPoseModel_resume st"
| "step (CalibrationFinished estimatePoses) st = startCountdownAndRun_resume estimatePoses st"
| "step ResetCountClick st = resetCount st"
| "step (AnimationFrame r now) st = runDetectionLoop r now st"

text \<open>
  Line 30, and the least time that the timers of lines 123-128 and 152 let pass between
  the click that starts detection and the first frame of the detection loop: the
  countdown, 300 ms, and 120 ms after each calibration attempt. \<open>performance.now()\<close>
  counts from the loading of the page, so no frame is evaluated at an earlier clock.
\<close>

definition COUNTDOWN_SECONDS :: nat where "COUNTDOWN_SECONDS = 10"

definition minFirstFrameClock :: real where
  "minFirstFrameClock = real COUNTDOWN_SECONDS * 1000 + 300 + real tries * 120"

section \<open>Example poses and sessions\<close>

text \<open>
  Poses of the seventeen keypoints of MoveNet, used to run the definitions on concrete
  inputs: arms straight with the shoulders at the calibrated height, and arms folded with
  the shoulders 35 pixels lower.
\<close>

definition kp :: "real \<Rightarrow> real \<Rightarrow> real \<Rightarrow> keypoint" where
  "kp u v s = \<lparr>kp_x = u, kp_y = v, kp_score = Some s, kp_probability = None\<rparr>"

definition topPose :: pose where
  "topPose = \<lparr>keypoints =
     [kp 120 70 0.9, kp 115 65 0.9, kp 125 65 0.9, kp 110 68 0.8, kp 130 68 0.8,
      kp 100 100 0.9, kp 140 100 0.9, kp 100 150 0.8, kp 140 150 0.8,
      kp 100 200 0.7, kp 140 200 0.7, kp 105 300 0.9, kp 135 300 0.9,
      kp 105 400 0.6, kp 135 400 0.6, kp 105 500 0.5, kp 135 500 0.5]\<rparr>"

definition bottomPose :: pose where
  "bottomPose = \<lparr>keypoints =
     [kp 120 105 0.9, kp 115 100 0.9, kp 125 100 0.9, kp 110 103 0.8, kp 130 103 0.8,
      kp 100 135 0.9, kp 140 135 0.9, kp 100 185 0.8, kp 140 185 0.8,
      kp 100 145 0.7, kp 140 145 0.7, kp 105 300 0.9, kp 135 300 0.9,
      kp 105 400 0.6, kp 135 400 0.6, kp 105 500 0.5, kp 135 500 0.5]\<rparr>"

definition exampleBaseline :: Baseline where
  "exampleBaseline = \<lparr>shoulderY = 100, hipY = 300, shoulderWidth = 40, bodyHeight = 200,
     shoulderDropThreshold = 36\<rparr>"

definition downSession :: state where
  "downSession =
     \<lparr>stream = True, running = True, pushCount = 3, detector = True,
      baseline = Some exampleBaseline, lastPosition = Down, lastRepTime = 0,
      lastDownTime = 1000, feedbackText = DescentDetected\<rparr>"

text \<open>A detector that sees the straight-arm pose at every call.\<close>

definition steadySource :: "nat \<Rightarrow> response" where
  "steadySource i = Resolves (Some [topPose])"


text \<open>
  The page with camera and model ready, in the countdown; the session right after a
  successful calibration on the straight-arm pose; and the two frames of the
  first-repetition scenario as signals.
\<close>

definition readySession :: state where
  "readySession =
     \<lparr>stream = True, running = False, pushCount = 0, detector = True,
      baseline = None, lastPosition = Up, lastRepTime = 0,
      lastDownTime = 0, feedbackText = Preparing\<rparr>"

definition freshSession :: state where
  "freshSession =
     \<lparr>stream = True, running = True, pushCount = 0, detector = True,
      baseline = Some exampleBaseline, lastPosition = Up, lastRepTime = 0,
      lastDownTime = 0, feedbackText = DetectionStarted\<rparr>"

definition scenarioA :: signals where
  "scenarioA = \<lparr>sg_shoulderMidY = 135, sg_elbowAvg = 70, sg_wristsUnder = True\<rparr>"

definition scenarioB :: signals where
  "scenarioB = \<lparr>sg_shoulderMidY = 110, sg_elbowAvg = 170, sg_wristsUnder = True\<rparr>"

text \<open>
  The straight-arm pose with the left shoulder hidden (confidence 0.2); its right
  shoulder carries its confidence in the field \<open>probability\<close>.
\<close>

definition occludedPose :: pose where
  "occludedPose = \<lparr>keypoints =
     [kp 120 70 0.9, kp 115 65 0.9, kp 125 65 0.9, kp 110 68 0.8, kp 130 68 0.8,
      kp 100 100 0.2,
      \<lparr>kp_x = 140, kp_y = 100, kp_score = None, kp_probability = Some 0.9\<rparr>,
      kp 100 150 0.8, kp 140 150 0.8,
      kp 100 200 0.7, kp 140 200 0.7, kp 105 300 0.9, kp 135 300 0.9,
      kp 105 400 0.6, kp 135 400 0.6, kp 105 500 0.5, kp 135 500 0.5]\<rparr>"

text \<open>
  Two poses for the calibration test of line 150: one whose shoulders are half a pixel
  apart, and one whose shoulders lie on the top edge of the image (\<open>y = 0\<close>) with full
  confidence.
\<close>

definition narrowPose :: pose where
  "narrowPose = \<lparr>keypoints =
     [kp 120 70 0.9, kp 115 65 0.9, kp 125 65 0.9, kp 110 68 0.8, kp 130 68 0.8,
      kp 100.5 100 0.9, kp 100 100 0.9, kp 100 150 0.8, kp 140 150 0.8,
      kp 100 200 0.7, kp 140 200 0.7, kp 105 300 0.9, kp 135 300 0.9,
      kp 105 400 0.6, kp 135 400 0.6, kp 105 500 0.5, kp 135 500 0.5]\<rparr>"

definition topEdgePose :: pose where
  "topEdgePose = \<lparr>keypoints =
     [kp 120 0 0.3, kp 115 0 0.2, kp 125 0 0.2, kp 110 0 0.2, kp 130 0 0.2,
      kp 100 0 0.9, kp 140 0 0.9, kp 100 50 0.8, kp 140 50 0.8,
      kp 100 100 0.7, kp 140 100 0.7, kp 105 200 0.9, kp 135 200 0.9,
      kp 105 300 0.6, kp 135 300 0.6, kp 105 400 0.5, kp 135 400 0.5]\<rparr>"

section \<open>The predicates as the specification words them\<close>

text \<open>
  The predicates of the specification, in its words: \<open>wristsUnder\<close> holds iff, for both
  sides, the wrist confidence is at least 0.25 and the horizontal distance from wrist to
  shoulder is below 0.9 times the current shoulder width; \<open>downDetected\<close> and \<open>upDetected\<close>
  as functions of the elbow angle, the shoulder drop, the baseline's drop threshold and
  \<open>wristsUnder\<close>.
\<close>

definition spec_wristsUnder :: "key \<Rightarrow> key \<Rightarrow> key \<Rightarrow> key \<Rightarrow> bool" where
  "spec_wristsUnder leftShoulder rightShoulder leftWrist rightWrist \<longleftrightarrow>
     list_all (\<lambda>(wrist, shoulder).
         key_score wrist \<ge> 0.25
         \<and> \<bar>key_x wrist - key_x shoulder\<bar>
             < 0.9 * \<bar>key_x leftShoulder - key_x rightShoulder\<bar>)
       [(leftWrist, leftShoulder), (rightWrist, rightShoulder)]"

definition spec_downDetected :: "real \<Rightarrow> real \<Rightarrow> real \<Rightarrow> bool \<Rightarrow> bool" where
  "spec_downDetected elbowAngle dropped threshold wrists \<longleftrightarrow>
     elbowAngle < 90 \<and> dropped > 0.85 * threshold \<and> wrists"

definition spec_upDetected :: "real \<Rightarrow> real \<Rightarrow> real \<Rightarrow> bool" where
  "spec_upDetected elbowAngle dropped threshold \<longleftrightarrow>
     elbowAngle > 160 \<and> dropped < 0.45 * threshold"

section \<open>Properties of the geometry primitives\<close>

lemma hypot_eq_0_iff: "hypot u v = 0 \<longleftrightarrow> u = 0 \<and> v = 0"
  by (simp add: hypot_def sum_squares_eq_zero_iff flip: power2_eq_square)

lemma angleDeg_degenerate:
  "(key_x a = key_x b \<and> key_y a = key_y b) \<or> (key_x c = key_x b \<and> key_y c = key_y b)
   \<Longrightarrow> angleDeg a b c = 180"
  by (auto simp: angleDeg_def Let_def hypot_eq_0_iff)

lemma angleDeg_range: "0 \<le> angleDeg a b c \<and> angleDeg a b c \<le> 180"
proof -
  have r: "0 \<le> arccos (max (- 1) (min 1 t)) * 180 / pi
           \<and> arccos (max (- 1) (min 1 t)) * 180 / pi \<le> 180" for t :: real
  proof -
    have lo: "- 1 \<le> max (- 1) (min 1 t)" and hi: "max (- 1) (min 1 t) \<le> 1"
      by simp_all
    have a0: "0 \<le> arccos (max (- 1) (min 1 t))"
      using arccos_lbound [OF lo hi] .
    have a1: "arccos (max (- 1) (min 1 t)) \<le> pi"
      using arccos_ubound [OF lo hi] .
    have "arccos (max (- 1) (min 1 t)) * 180 / pi \<le> pi * 180 / pi"
      using a1 pi_gt_zero by (intro divide_right_mono mult_right_mono) simp_all
    then have "arccos (max (- 1) (min 1 t)) * 180 / pi \<le> 180"
      by simp
    moreover have "0 \<le> arccos (max (- 1) (min 1 t)) * 180 / pi"
      using a0 pi_gt_zero by simp
    ultimately show ?thesis by simp
  qed
  show ?thesis
    unfolding angleDeg_def Let_def using r by simp
qed

text \<open>
  Claim C5. \<open>angleDeg\<close> returns exactly 180 when the ray from \<open>b\<close> to \<open>a\<close> or the ray from
  \<open>b\<close> to \<open>c\<close> has zero length, and in every other case a value between 0 and 180: the
  arccosine of the quotient clamped to the interval from -1 to 1, in degrees.
\<close>

theorem angleDeg_spec:
  "(hypot (key_x a - key_x b) (key_y a - key_y b) = 0
      \<or> hypot (key_x c - key_x b) (key_y c - key_y b) = 0
    \<longrightarrow> angleDeg a b c = 180)
   \<and> (\<not> (hypot (key_x a - key_x b) (key_y a - key_y b) = 0
          \<or> hypot (key_x c - key_x b) (key_y c - key_y b) = 0)
    \<longrightarrow> 0 \<le> angleDeg a b c \<and> angleDeg a b c \<le> 180
        \<and> angleDeg a b c
            = arccos (max (- 1) (min 1
                (((key_x a - key_x b) * (key_x c - key_x b)
                   + (key_y a - key_y b) * (key_y c - key_y b))
                 / (hypot (key_x a - key_x b) (key_y a - key_y b)
                    * hypot (key_x c - key_x b) (key_y c - key_y b))))) * 180 / pi)"
proof (intro conjI impI)
  assume "hypot (key_x a - key_x b) (key_y a - key_y b) = 0
      \<or> hypot (key_x c - key_x b) (key_y c - key_y b) = 0"
  then show "angleDeg a b c = 180"
    by (intro angleDeg_degenerate) (auto simp: hypot_eq_0_iff)
next
  show "0 \<le> angleDeg a b c" "angleDeg a b c \<le> 180"
    using angleDeg_range [of a b c] by simp_all
next
  assume "\<not> (hypot (key_x a - key_x b) (key_y a - key_y b) = 0
      \<or> hypot (key_x c - key_x b) (key_y c - key_y b) = 0)"
  then show "angleDeg a b c
            = arccos (max (- 1) (min 1
                (((key_x a - key_x b) * (key_x c - key_x b)
                   + (key_y a - key_y b) * (key_y c - key_y b))
                 / (hypot (key_x a - key_x b) (key_y a - key_y b)
                    * hypot (key_x c - key_x b) (key_y c - key_y b))))) * 180 / pi"
    by (simp add: angleDeg_def Let_def)
qed

theorem angleDeg_spec_witness:
  "angleDeg \<lparr>key_x = 3, key_y = 4, key_score = 1\<rparr> \<lparr>key_x = 3, key_y = 4, key_score = 1\<rparr>
            \<lparr>key_x = 7, key_y = 4, key_score = 1\<rparr> = 180
   \<and> 0 \<le> angleDeg \<lparr>key_x = 1, key_y = 0, key_score = 1\<rparr> \<lparr>key_x = 0, key_y = 0, key_score = 1\<rparr>
                   \<lparr>key_x = 0, key_y = 1, key_score = 1\<rparr>
   \<and> angleDeg \<lparr>key_x = 1, key_y = 0, key_score = 1\<rparr> \<lparr>key_x = 0, key_y = 0, key_score = 1\<rparr>
              \<lparr>key_x = 0, key_y = 1, key_score = 1\<rparr> \<le> 180"
  using angleDeg_spec [of "\<lparr>key_x = 3, key_y = 4, key_score = 1\<rparr>"
           "\<lparr>key_x = 3, key_y = 4, key_score = 1\<rparr>" "\<lparr>key_x = 7, key_y = 4, key_score = 1\<rparr>"]
        angleDeg_spec [of "\<lparr>key_x = 1, key_y = 0, key_score = 1\<rparr>"
           "\<lparr>key_x = 0, key_y = 0, key_score = 1\<rparr>" "\<lparr>key_x = 0, key_y = 1, key_score = 1\<rparr>"]
  by (simp add: hypot_def)

section \<open>The repetition state machine\<close>

lemma hypot_zero_left: "hypot 0 v = \<bar>v\<bar>"
  by (simp add: hypot_def)

lemma getKey_kp:
  "idx < length ks \<Longrightarrow> ks ! idx = kp u v s
   \<Longrightarrow> getKey \<lparr>keypoints = ks\<rparr> idx = Inr \<lparr>key_x = u, key_y = v, key_score = s\<rparr>"
  by (simp add: getKey_def kp_def confidence_def)

lemma frameSignals_topPose:
  "frameSignals topPose = Inr (Some \<lparr>sg_shoulderMidY = 100, sg_elbowAvg = 180, sg_wristsUnder = True\<rparr>)"
  by (simp add: frameSignals_def topPose_def getKey_kp angleDeg_def hypot_zero_left wristsUnder_def)

lemma frameSignals_bottomPose:
  "frameSignals bottomPose = Inr (Some \<lparr>sg_shoulderMidY = 135, sg_elbowAvg = 0, sg_wristsUnder = True\<rparr>)"
  by (simp add: frameSignals_def bottomPose_def getKey_kp angleDeg_def hypot_zero_left wristsUnder_def)


lemma drawPose_ok: "14 < length (keypoints p) \<Longrightarrow> drawPose p = Inr ()"
  by (simp add: drawPose_def strokeLine_def)

lemma drawPose_examples: "drawPose topPose = Inr ()" "drawPose bottomPose = Inr ()"
  by (simp_all add: drawPose_ok topPose_def bottomPose_def)

lemma repTransition_pushCount:
  "pushCount (repTransition dd ud now st) =
     (if ud \<and> lastPosition st = Down \<and> now - lastDownTime st \<ge> 250 \<and> now - lastRepTime st \<ge> 800
      then pushCount st + 1 else pushCount st)"
  by (simp add: repTransition_def Let_def MIN_DOWN_HOLD_MS_def MIN_REP_INTERVAL_MS_def)

lemma repTransition_lastDownTime:
  "lastDownTime (repTransition dd ud now st) =
     (if dd \<and> lastPosition st = Up then now else lastDownTime st)"
  by (simp add: repTransition_def Let_def)

lemma repTransition_lastPosition:
  "lastPosition (repTransition dd ud now st) =
     (if lastPosition st = Up then (if dd then Down else Up)
      else if ud \<and> now - lastDownTime st \<ge> 250 \<and> now - lastRepTime st \<ge> 800 then Up else Down)"
  by (cases "lastPosition st") (simp_all add: repTransition_def Let_def MIN_DOWN_HOLD_MS_def MIN_REP_INTERVAL_MS_def)

lemma repTransition_lastRepTime:
  "lastRepTime (repTransition dd ud now st) =
     (if ud \<and> lastPosition st = Down \<and> now - lastDownTime st \<ge> 250 \<and> now - lastRepTime st \<ge> 800
      then now else lastRepTime st)"
  by (simp add: repTransition_def Let_def MIN_DOWN_HOLD_MS_def MIN_REP_INTERVAL_MS_def)

lemma repTransition_baseline: "baseline (repTransition dd ud now st) = baseline st"
  by (simp add: repTransition_def Let_def)

lemma not_down_and_up: "\<not> (downDetected sg b \<and> upDetected sg b)"
  by (simp add: downDetected_def upDetected_def DOWN_ANGLE_THRESHOLD_def UP_ANGLE_THRESHOLD_def)

lemma calibrateBaseline_frame:
  "calibrateBaseline est st = Inr (ok, st') \<Longrightarrow> \<exists>bo. st' = st\<lparr>baseline := bo\<rparr>"
  unfolding calibrateBaseline_def Let_def
  by (cases "collectSamples (map est [0..<tries]) []")
     (auto split: if_splits intro: exI [of _ "baseline st"])

text \<open>The three ways in which a calibration can end.\<close>

lemma startCountdownAndRun_resume_cases:
  "startCountdownAndRun_resume est st = st
   \<or> startCountdownAndRun_resume est st = st\<lparr>feedbackText := CalibrationFailed\<rparr>
   \<or> (\<exists>bo. startCountdownAndRun_resume est st
          = st\<lparr>baseline := bo, running := True, lastPosition := Up, lastRepTime := 0,
               feedbackText := DetectionStarted\<rparr>)"
proof (cases "calibrateBaseline est st")
  case (Inl e)
  then show ?thesis by (simp add: startCountdownAndRun_resume_def)
next
  case (Inr r)
  obtain ok st2 where r: "r = (ok, st2)" by (cases r)
  from calibrateBaseline_frame [OF Inr [unfolded r]]
  obtain bo where st2: "st2 = st\<lparr>baseline := bo\<rparr>" by auto
  show ?thesis
  proof (cases ok)
    case True
    with Inr r st2 show ?thesis
      by (auto simp: startCountdownAndRun_resume_def)
  next
    case False
    with Inr r have "calibrateBaseline est st = Inr (False, st2)" by simp
    then have "st2 = st"
      by (auto simp: calibrateBaseline_def Let_def split: sum.splits if_splits)
    with Inr r False show ?thesis
      by (simp add: startCountdownAndRun_resume_def)
  qed
qed

text \<open>Only animation frames touch the count, except to reset it, and the time of descent.\<close>

lemma other_events_pushCount:
  "(\<And>r now. ev \<noteq> AnimationFrame r now) \<Longrightarrow> pushCount (step ev st) \<le> pushCount st"
proof (cases ev)
  case (CalibrationFinished est)
  with startCountdownAndRun_resume_cases [of est st] show ?thesis by auto
qed (auto simp: startCamera_granted_def startCamera_playing_def startCamera_failed_def
       stopCamera_def stopDetection_def startOrStopDetection_def initPoseModel_resume_def
       startCountdownAndRun_begin_def resetCount_def)

lemma other_events_lastDownTime:
  "(\<And>r now. ev \<noteq> AnimationFrame r now) \<Longrightarrow> lastDownTime (step ev st) = lastDownTime st"
proof (cases ev)
  case (CalibrationFinished est)
  with startCountdownAndRun_resume_cases [of est st] show ?thesis by auto
qed (auto simp: startCamera_granted_def startCamera_playing_def startCamera_failed_def
       stopCamera_def stopDetection_def startOrStopDetection_def initPoseModel_resume_def
       startCountdownAndRun_begin_def resetCount_def)

text \<open>What an iteration of the detection loop does when it changes the state at all.\<close>

lemma runDetectionLoop_cases:
  "runDetectionLoop r now st = st
   \<or> (\<exists>p ps sg b. r = Resolves (Some (p # ps)) \<and> running st \<and> baseline st = Some b
        \<and> frameSignals p = Inr (Some sg)
        \<and> runDetectionLoop r now st = repTransition (downDetected sg b) (upDetected sg b) now st)"
proof (cases "running st \<and> detector st")
  case False
  then show ?thesis by (auto simp: runDetectionLoop_def)
next
  case True
  show ?thesis
  proof (cases r)
    case Rejects
    with True show ?thesis by (simp add: runDetectionLoop_def)
  next
    case (Resolves po)
    show ?thesis
    proof (cases po)
      case None
      with True Resolves show ?thesis by (simp add: runDetectionLoop_def)
    next
      case (Some pl)
      show ?thesis
      proof (cases pl)
        case Nil
        with True Resolves Some show ?thesis by (simp add: runDetectionLoop_def)
      next
        case (Cons p ps)
        show ?thesis
        proof (cases "baseline st")
          case None
          with True Resolves Some Cons show ?thesis
            by (simp add: runDetectionLoop_def split: sum.splits)
        next
          case b: (Some b)
          show ?thesis
          proof (cases "frameSignals p")
            case (Inl e)
            with True Resolves Some Cons b show ?thesis
              by (simp add: runDetectionLoop_def evaluateForPushUp_def split: sum.splits)
          next
            case (Inr so)
            show ?thesis
            proof (cases so)
              case None
              with Inr True Resolves Some Cons b show ?thesis
                by (simp add: runDetectionLoop_def evaluateForPushUp_def split: sum.splits)
            next
              case sg: (Some sg)
              with Inr True Resolves Some Cons b show ?thesis
                by (simp add: runDetectionLoop_def evaluateForPushUp_def evaluateSignals_def
                      split: sum.splits)
            qed
          qed
        qed
      qed
    qed
  qed
qed


lemma evaluateForPushUp_signals:
  "baseline st = Some b \<Longrightarrow> frameSignals p = Inr (Some sg)
   \<Longrightarrow> evaluateForPushUp p now st
       = Inr (repTransition (downDetected sg b) (upDetected sg b) now st)"
  by (simp add: evaluateForPushUp_def evaluateSignals_def)

text \<open>
  Claim C1. In a frame evaluated while the position is \<open>Down\<close> and \<open>upDetected\<close> holds,
  the count goes up if and only if the descent was held for at least 250 ms and the last
  counted repetition is at least 800 ms old; with a hold of 249 ms it stays as it is.
  A frame that counts adds exactly one, takes the position to \<open>Up\<close> and sets
  \<open>lastRepTime\<close> to its own time; a frame that does not count leaves everything but the
  feedback text as it was. No event of the page increases the count in any other way:
  an increase is always this step of a running, calibrated session that is in \<open>Down\<close>,
  detects \<open>up\<close> and passes both gates, and it leaves the position \<open>Up\<close>, from where no
  event increases the count, so that one raise is counted once.
\<close>

theorem count_increment_gate:
  "(baseline st = Some b \<and> frameSignals p = Inr (Some sg) \<and> lastPosition st = Down
      \<and> upDetected sg b
    \<longrightarrow> evaluateForPushUp p now st
          = Inr (if now - lastDownTime st \<ge> 250 \<and> now - lastRepTime st \<ge> 800
                 then st\<lparr>pushCount := pushCount st + 1, lastRepTime := now,
                         lastPosition := Up, feedbackText := ValidRep (pushCount st + 1)\<rparr>
                 else st\<lparr>feedbackText :=
                         (if now - lastDownTime st < 250 then HoldLonger else TooFast)\<rparr>)
        \<and> (\<exists>st'. evaluateForPushUp p now st = Inr st'
           \<and> (pushCount st' = pushCount st + 1
                \<longleftrightarrow> now - lastDownTime st \<ge> 250 \<and> now - lastRepTime st \<ge> 800)
           \<and> (pushCount st' = pushCount st \<or> pushCount st' = pushCount st + 1)
           \<and> (now - lastDownTime st = 249 \<longrightarrow> pushCount st' = pushCount st)
           \<and> (pushCount st' = pushCount st + 1
                \<longrightarrow> lastPosition st' = Up \<and> lastRepTime st' = now)
           \<and> (pushCount st' = pushCount st
                \<longrightarrow> lastPosition st' = Down \<and> lastRepTime st' = lastRepTime st
                    \<and> lastDownTime st' = lastDownTime st)))
   \<and> (pushCount st < pushCount (step ev st)
    \<longrightarrow> pushCount (step ev st) = pushCount st + 1
        \<and> lastPosition (step ev st) = Up
        \<and> (\<exists>p ps now sg b.
              ev = AnimationFrame (Resolves (Some (p # ps))) now \<and> running st
              \<and> baseline st = Some b \<and> frameSignals p = Inr (Some sg)
              \<and> lastPosition st = Down \<and> upDetected sg b
              \<and> now - lastDownTime st \<ge> 250 \<and> now - lastRepTime st \<ge> 800
              \<and> step ev st
                  = st\<lparr>pushCount := pushCount st + 1, lastRepTime := now,
                       lastPosition := Up, feedbackText := ValidRep (pushCount st + 1)\<rparr>))
   \<and> (lastPosition st = Up \<longrightarrow> pushCount (step ev st) \<le> pushCount st)"
proof (intro conjI impI)
  assume h: "baseline st = Some b \<and> frameSignals p = Inr (Some sg) \<and> lastPosition st = Down
      \<and> upDetected sg b"
  with not_down_and_up [of sg b] have nd: "\<not> downDetected sg b" by simp
  from h have "evaluateForPushUp p now st
      = Inr (repTransition (downDetected sg b) (upDetected sg b) now st)"
    by (simp add: evaluateForPushUp_signals)
  with h nd show e: "evaluateForPushUp p now st
          = Inr (if now - lastDownTime st \<ge> 250 \<and> now - lastRepTime st \<ge> 800
                 then st\<lparr>pushCount := pushCount st + 1, lastRepTime := now,
                         lastPosition := Up, feedbackText := ValidRep (pushCount st + 1)\<rparr>
                 else st\<lparr>feedbackText :=
                         (if now - lastDownTime st < 250 then HoldLonger else TooFast)\<rparr>)"
    by (simp add: repTransition_def Let_def MIN_DOWN_HOLD_MS_def MIN_REP_INTERVAL_MS_def)
  from h show "\<exists>st'. evaluateForPushUp p now st = Inr st'
           \<and> (pushCount st' = pushCount st + 1
                \<longleftrightarrow> now - lastDownTime st \<ge> 250 \<and> now - lastRepTime st \<ge> 800)
           \<and> (pushCount st' = pushCount st \<or> pushCount st' = pushCount st + 1)
           \<and> (now - lastDownTime st = 249 \<longrightarrow> pushCount st' = pushCount st)
           \<and> (pushCount st' = pushCount st + 1
                \<longrightarrow> lastPosition st' = Up \<and> lastRepTime st' = now)
           \<and> (pushCount st' = pushCount st
                \<longrightarrow> lastPosition st' = Down \<and> lastRepTime st' = lastRepTime st
                    \<and> lastDownTime st' = lastDownTime st)"
    unfolding e by (cases "now - lastDownTime st \<ge> 250 \<and> now - lastRepTime st \<ge> 800") auto
next
  assume inc: "pushCount st < pushCount (step ev st)"
  have frame: "\<exists>r now. ev = AnimationFrame r now"
  proof (rule ccontr)
    assume "\<not> (\<exists>r now. ev = AnimationFrame r now)"
    then have "pushCount (step ev st) \<le> pushCount st"
      by (intro other_events_pushCount) blast
    with inc show False by simp
  qed
  then obtain r now where ev: "ev = AnimationFrame r now" by blast
  with inc have ne: "runDetectionLoop r now st \<noteq> st" by auto
  with runDetectionLoop_cases [of r now st]
  obtain p ps sg b where r: "r = Resolves (Some (p # ps))" and run: "running st"
    and b: "baseline st = Some b" and sg: "frameSignals p = Inr (Some sg)"
    and eq: "runDetectionLoop r now st = repTransition (downDetected sg b) (upDetected sg b) now st"
    by blast
  from inc ev eq have gate: "upDetected sg b \<and> lastPosition st = Down
      \<and> now - lastDownTime st \<ge> 250 \<and> now - lastRepTime st \<ge> 800"
    by (simp add: repTransition_pushCount split: if_splits)
  with not_down_and_up [of sg b] have nd: "\<not> downDetected sg b" by simp
  from gate nd ev eq have post: "step ev st
      = st\<lparr>pushCount := pushCount st + 1, lastRepTime := now,
           lastPosition := Up, feedbackText := ValidRep (pushCount st + 1)\<rparr>"
    by (simp add: repTransition_def Let_def MIN_DOWN_HOLD_MS_def MIN_REP_INTERVAL_MS_def)
  from post show "pushCount (step ev st) = pushCount st + 1" by simp
  from post show "lastPosition (step ev st) = Up" by simp
  from ev r run b sg gate post
  show "\<exists>p ps now sg b.
              ev = AnimationFrame (Resolves (Some (p # ps))) now \<and> running st
              \<and> baseline st = Some b \<and> frameSignals p = Inr (Some sg)
              \<and> lastPosition st = Down \<and> upDetected sg b
              \<and> now - lastDownTime st \<ge> 250 \<and> now - lastRepTime st \<ge> 800
              \<and> step ev st
                  = st\<lparr>pushCount := pushCount st + 1, lastRepTime := now,
                       lastPosition := Up, feedbackText := ValidRep (pushCount st + 1)\<rparr>"
    by blast
next
  assume up: "lastPosition st = Up"
  show "pushCount (step ev st) \<le> pushCount st"
  proof (cases "\<exists>r now. ev = AnimationFrame r now")
    case False
    then show ?thesis by (intro other_events_pushCount) blast
  next
    case True
    then obtain r now where ev: "ev = AnimationFrame r now" by blast
    from runDetectionLoop_cases [of r now st] up ev show ?thesis
      by (auto simp: repTransition_pushCount)
  qed
qed

lemma upDetected_top:
  "upDetected \<lparr>sg_shoulderMidY = 100, sg_elbowAvg = 180, sg_wristsUnder = True\<rparr> exampleBaseline"
  by (simp add: upDetected_def shoulderDrop_def exampleBaseline_def UP_ANGLE_THRESHOLD_def)

lemma downDetected_bottom:
  "downDetected \<lparr>sg_shoulderMidY = 135, sg_elbowAvg = 0, sg_wristsUnder = True\<rparr> exampleBaseline"
  by (simp add: downDetected_def shoulderDrop_def exampleBaseline_def DOWN_ANGLE_THRESHOLD_def)

text \<open>
  In a session that has been in \<open>Down\<close> since the clock read 1000, with three repetitions
  counted: a straight-arm frame at 1300 counts the fourth and leaves the position \<open>Up\<close>,
  the same frame at 1249 does not count, and a second straight-arm frame 16 ms after the
  counted one leaves the count at four.
\<close>

theorem count_increment_gate_witness:
  "evaluateForPushUp topPose 1300 downSession
     = Inr (downSession\<lparr>pushCount := 4, lastRepTime := 1300, lastPosition := Up,
              feedbackText := ValidRep 4\<rparr>)
   \<and> evaluateForPushUp topPose 1249 downSession = Inr (downSession\<lparr>feedbackText := HoldLonger\<rparr>)
   \<and> pushCount (step (AnimationFrame (Resolves (Some [topPose])) 1300) downSession) = 4
   \<and> lastPosition (step (AnimationFrame (Resolves (Some [topPose])) 1300) downSession) = Up
   \<and> pushCount (step (AnimationFrame (Resolves (Some [topPose])) 1316)
        (step (AnimationFrame (Resolves (Some [topPose])) 1300) downSession)) \<le> 4"
proof -
  let ?sg = "\<lparr>sg_shoulderMidY = 100, sg_elbowAvg = 180, sg_wristsUnder = True\<rparr>"
  let ?ev = "AnimationFrame (Resolves (Some [topPose])) 1300"
  let ?ev' = "AnimationFrame (Resolves (Some [topPose])) 1316"
  have h: "baseline downSession = Some exampleBaseline \<and> frameSignals topPose = Inr (Some ?sg)
      \<and> lastPosition downSession = Down \<and> upDetected ?sg exampleBaseline"
    by (simp add: downSession_def frameSignals_topPose upDetected_top)
  have c: "pushCount downSession = 3" "lastDownTime downSession = 1000"
    "lastRepTime downSession = 0"
    by (simp_all add: downSession_def)
  have run: "pushCount downSession < pushCount (step ?ev downSession)"
    using h by (simp add: runDetectionLoop_def drawPose_examples evaluateForPushUp_signals
        repTransition_pushCount c) (simp add: downSession_def)
  from count_increment_gate [of downSession exampleBaseline topPose ?sg 1300 ?ev] h run c
  have a: "evaluateForPushUp topPose 1300 downSession
       = Inr (downSession\<lparr>pushCount := 4, lastRepTime := 1300, lastPosition := Up,
                feedbackText := ValidRep 4\<rparr>)"
    "pushCount (step ?ev downSession) = 4" "lastPosition (step ?ev downSession) = Up"
    by simp_all
  from count_increment_gate [of downSession exampleBaseline topPose ?sg 1249 ?ev] h c
  have b: "evaluateForPushUp topPose 1249 downSession
       = Inr (downSession\<lparr>feedbackText := HoldLonger\<rparr>)"
    by simp
  from count_increment_gate [of "step ?ev downSession" exampleBaseline topPose ?sg 1316 ?ev'] a
  have d: "pushCount (step ?ev' (step ?ev downSession)) \<le> 4"
    by simp
  from a b d show ?thesis by simp
qed

text \<open>
  Claim C8. A frame evaluated in \<open>Down\<close> with \<open>downDetected\<close> true changes nothing but
  the feedback text: the position stays \<open>Down\<close> and \<open>lastDownTime\<close> keeps its value. No
  event of the page writes \<open>lastDownTime\<close> except a frame that takes the position from
  \<open>Up\<close> to \<open>Down\<close>, which sets it to the time of that frame.
\<close>

theorem down_frame_idempotent:
  "(baseline st = Some b \<and> frameSignals p = Inr (Some sg) \<and> lastPosition st = Down
      \<and> downDetected sg b
    \<longrightarrow> evaluateForPushUp p now st = Inr (st\<lparr>feedbackText := DescentDetected\<rparr>)
        \<and> (running st \<and> 14 < length (keypoints p)
             \<longrightarrow> lastDownTime (step (AnimationFrame (Resolves (Some (p # ps))) now) st)
                   = lastDownTime st
                 \<and> lastPosition (step (AnimationFrame (Resolves (Some (p # ps))) now) st) = Down))
   \<and> (lastDownTime (step ev st) \<noteq> lastDownTime st
    \<longrightarrow> lastPosition st = Up \<and> lastPosition (step ev st) = Down
        \<and> (\<exists>q qs t sg' b'.
              ev = AnimationFrame (Resolves (Some (q # qs))) t \<and> running st
              \<and> baseline st = Some b' \<and> frameSignals q = Inr (Some sg')
              \<and> downDetected sg' b' \<and> lastDownTime (step ev st) = t))"
proof (intro conjI impI)
  assume h: "baseline st = Some b \<and> frameSignals p = Inr (Some sg) \<and> lastPosition st = Down
      \<and> downDetected sg b"
  with not_down_and_up [of sg b] have nu: "\<not> upDetected sg b" by simp
  from h have "evaluateForPushUp p now st
      = Inr (repTransition (downDetected sg b) (upDetected sg b) now st)"
    by (simp add: evaluateForPushUp_signals)
  with h nu show e: "evaluateForPushUp p now st = Inr (st\<lparr>feedbackText := DescentDetected\<rparr>)"
    by (simp add: repTransition_def)
  assume "running st \<and> 14 < length (keypoints p)"
  with h e have r: "runDetectionLoop (Resolves (Some (p # ps))) now st
      = (if detector st then st\<lparr>feedbackText := DescentDetected\<rparr> else st)"
    by (simp add: runDetectionLoop_def drawPose_ok)
  from r show "lastDownTime (step (AnimationFrame (Resolves (Some (p # ps))) now) st)
      = lastDownTime st"
    by simp
  from r h show "lastPosition (step (AnimationFrame (Resolves (Some (p # ps))) now) st) = Down"
    by simp
next
  assume ch: "lastDownTime (step ev st) \<noteq> lastDownTime st"
  have "\<exists>r t. ev = AnimationFrame r t"
  proof (rule ccontr)
    assume "\<not> (\<exists>r t. ev = AnimationFrame r t)"
    then have "lastDownTime (step ev st) = lastDownTime st"
      by (intro other_events_lastDownTime) blast
    with ch show False by simp
  qed
  then obtain r t where ev: "ev = AnimationFrame r t" by blast
  with ch have "runDetectionLoop r t st \<noteq> st" by auto
  with runDetectionLoop_cases [of r t st]
  obtain q qs sg' b' where r: "r = Resolves (Some (q # qs))" and run: "running st"
    and b: "baseline st = Some b'" and sg: "frameSignals q = Inr (Some sg')"
    and eq: "runDetectionLoop r t st = repTransition (downDetected sg' b') (upDetected sg' b') t st"
    by blast
  from ch ev eq have d: "downDetected sg' b' \<and> lastPosition st = Up"
    by (simp add: repTransition_lastDownTime split: if_splits)
  then show "lastPosition st = Up" by simp
  from d ev eq show "lastPosition (step ev st) = Down"
    by (simp add: repTransition_lastPosition)
  from d ev eq have "lastDownTime (step ev st) = t"
    by (simp add: repTransition_lastDownTime)
  with ev r run b sg d
  show "\<exists>q qs t sg' b'.
              ev = AnimationFrame (Resolves (Some (q # qs))) t \<and> running st
              \<and> baseline st = Some b' \<and> frameSignals q = Inr (Some sg')
              \<and> downDetected sg' b' \<and> lastDownTime (step ev st) = t"
    by blast
qed

theorem down_frame_idempotent_witness:
  "evaluateForPushUp bottomPose 1100 downSession = Inr (downSession\<lparr>feedbackText := DescentDetected\<rparr>)
   \<and> lastDownTime (step (AnimationFrame (Resolves (Some [bottomPose])) 1100) downSession) = 1000
   \<and> lastPosition (step (AnimationFrame (Resolves (Some [bottomPose])) 1100) downSession) = Down
   \<and> lastDownTime (step (AnimationFrame (Resolves (Some [bottomPose])) 1100)
        (downSession\<lparr>lastPosition := Up\<rparr>)) = 1100
   \<and> lastPosition (step (AnimationFrame (Resolves (Some [bottomPose])) 1100)
        (downSession\<lparr>lastPosition := Up\<rparr>)) = Down"
proof -
  let ?sg = "\<lparr>sg_shoulderMidY = 135, sg_elbowAvg = 0, sg_wristsUnder = True\<rparr>"
  let ?ev = "AnimationFrame (Resolves (Some [bottomPose])) 1100"
  let ?up = "downSession\<lparr>lastPosition := Up\<rparr>"
  have h: "baseline downSession = Some exampleBaseline \<and> frameSignals bottomPose = Inr (Some ?sg)
      \<and> lastPosition downSession = Down \<and> downDetected ?sg exampleBaseline"
    by (simp add: downSession_def frameSignals_bottomPose downDetected_bottom)
  have g: "running downSession \<and> 14 < length (keypoints bottomPose)"
    by (simp add: downSession_def bottomPose_def)
  have c: "lastDownTime downSession = 1000"
    by (simp add: downSession_def)
  have up: "step ?ev ?up = repTransition True False 1100 ?up"
    using h not_down_and_up [of ?sg exampleBaseline]
    by (simp add: runDetectionLoop_def drawPose_examples evaluateForPushUp_signals)
       (simp add: downSession_def)
  have ch: "lastDownTime (step ?ev ?up) \<noteq> lastDownTime ?up"
    unfolding up by (simp add: repTransition_lastDownTime) (simp add: downSession_def)
  have t: "lastDownTime (step ?ev ?up) = 1100"
    unfolding up by (simp add: repTransition_lastDownTime)
  from down_frame_idempotent [of downSession exampleBaseline bottomPose ?sg 1100 "[]" ?ev]
       down_frame_idempotent [of ?up exampleBaseline bottomPose ?sg 1100 "[]" ?ev]
       h g c ch t
  show ?thesis by auto
qed

text \<open>
  Claim C9. The reset command sets the count to 0 in every state and leaves the baseline,
  the position, both timestamps and the running flag as they are; besides the count it
  writes only the feedback text.
\<close>

theorem resetCount_spec:
  "pushCount (step ResetCountClick st) = 0
   \<and> baseline (step ResetCountClick st) = baseline st
   \<and> lastPosition (step ResetCountClick st) = lastPosition st
   \<and> lastRepTime (step ResetCountClick st) = lastRepTime st
   \<and> lastDownTime (step ResetCountClick st) = lastDownTime st
   \<and> running (step ResetCountClick st) = running st
   \<and> stream (step ResetCountClick st) = stream st
   \<and> detector (step ResetCountClick st) = detector st
   \<and> step ResetCountClick st = resetCount st
   \<and> resetCount st = st\<lparr>pushCount := 0, feedbackText := CountReset\<rparr>"
  by (simp add: resetCount_def)

text \<open>
  Claim C10. \<open>downDetected\<close> and \<open>upDetected\<close> never hold of the same frame, whatever the
  baseline: the averaged elbow angle cannot be below 90 and above 160.
\<close>

theorem down_up_exclusive:
  "\<not> (downDetected sg b \<and> upDetected sg b)
   \<and> \<not> (sg_elbowAvg sg < DOWN_ANGLE_THRESHOLD \<and> sg_elbowAvg sg > UP_ANGLE_THRESHOLD)
   \<and> DOWN_ANGLE_THRESHOLD = 90 \<and> UP_ANGLE_THRESHOLD = 160"
  by (simp add: downDetected_def upDetected_def DOWN_ANGLE_THRESHOLD_def UP_ANGLE_THRESHOLD_def)

section \<open>Calibration and the first repetition\<close>


lemma getMidpointY_kp:
  "i < length ks \<Longrightarrow> j < length ks \<Longrightarrow> ks ! i = kp u v s \<Longrightarrow> ks ! j = kp u' v' s'
   \<Longrightarrow> getMidpointY \<lparr>keypoints = ks\<rparr> i j
       = Inr (if s < 0.35 \<or> s' < 0.35 then None else Some ((v + v') / 2))"
  by (simp add: getMidpointY_def getKey_kp)

lemma calibrationSample_topPose:
  "calibrationSample topPose = Inr (Some \<lparr>shoulderY = 100, hipY = 300, shoulderWidth = 40\<rparr>)"
  by (simp add: calibrationSample_def topPose_def getMidpointY_kp getKey_kp
        attemptShoulderWidth_def)

lemma collectSamples_steady:
  "collectSamples (map steadySource [0..<tries]) []
     = Inr (replicate 6 \<lparr>shoulderY = 100, hipY = 300, shoulderWidth = 40\<rparr>)"
  by (simp add: tries_def upt_rec steadySource_def calibrationSample_topPose
        numeral_eq_Suc)

lemma calibrate_steady:
  "detector st
   \<Longrightarrow> calibrateBaseline steadySource st = Inr (True, st\<lparr>baseline := Some exampleBaseline\<rparr>)"
  by (simp add: calibrateBaseline_def collectSamples_steady numeral_eq_Suc
        exampleBaseline_def SHOULDER_DROP_RATIO_def)

text \<open>
  The example sessions are states of the page: camera, click, model and countdown give
  \<open>readySession\<close>, and calibrating there on the straight-arm pose gives \<open>freshSession\<close>.
\<close>

lemma ready_from_start:
  "step ModelReady (step StartDetectClick (step CameraPlaying (step CameraGranted initialState)))
     = readySession"
  by (simp add: initialState_def startCamera_granted_def startCamera_playing_def
        startOrStopDetection_def initPoseModel_resume_def startCountdownAndRun_begin_def
        readySession_def)

lemma fresh_from_ready:
  "step (CalibrationFinished steadySource) readySession = freshSession"
  by (simp add: startCountdownAndRun_resume_def calibrate_steady readySession_def
        freshSession_def)

text \<open>
  Claim C2. The times of the scenario count from its first frame, whose clock reading is
  \<open>t0\<close>; the clock is that of \<open>performance.now()\<close>, from which \<open>lastRepTime = 0\<close> is
  subtracted. From a session in \<open>Up\<close> with count 0 and \<open>lastRepTime = 0\<close>, and a baseline
  with \<open>shoulderY = 100\<close> and \<open>shoulderDropThreshold = 36\<close>: the frame at scenario time 0
  with elbow angle 70, shoulder drop 35 and the wrists under the shoulders takes the
  position to \<open>Down\<close>; for the frame at scenario time 300 with elbow angle 170 and
  shoulder drop 10 the hold is 300 ms and the time since the last repetition is the
  clock reading itself, so both gates pass, the count becomes 1 and the position \<open>Up\<close>.
  This holds whenever the second frame's clock reads at least 800 ms, and so at every
  clock reading that a frame of the detection loop can have: the first frame comes no
  earlier than 11020 ms after the page was loaded.
\<close>

theorem first_rep_scenario:
  "(baseline st = Some b \<and> shoulderY b = 100 \<and> shoulderDropThreshold b = 36
     \<and> lastPosition st = Up \<and> pushCount st = 0 \<and> lastRepTime st = 0
     \<and> sg_elbowAvg sgA = 70 \<and> shoulderDrop sgA b = 35 \<and> sg_wristsUnder sgA
     \<and> sg_elbowAvg sgB = 170 \<and> shoulderDrop sgB b = 10
     \<and> t0 + 300 \<ge> 800
    \<longrightarrow> (\<exists>sA sB. evaluateSignals sgA (t0 + 0) st = Inr sA \<and> lastPosition sA = Down
          \<and> pushCount sA = 0 \<and> lastDownTime sA = t0 \<and> lastRepTime sA = 0
          \<and> (t0 + 300) - lastDownTime sA = 300
          \<and> (t0 + 300) - lastRepTime sA \<ge> 800
          \<and> evaluateSignals sgB (t0 + 300) sA = Inr sB
          \<and> pushCount sB = 1 \<and> lastPosition sB = Up \<and> lastRepTime sB = t0 + 300))
   \<and> (minFirstFrameClock \<le> t0 \<longrightarrow> t0 + 300 \<ge> 800)
   \<and> minFirstFrameClock = 11020"
proof (intro conjI impI)
  assume h: "baseline st = Some b \<and> shoulderY b = 100 \<and> shoulderDropThreshold b = 36
     \<and> lastPosition st = Up \<and> pushCount st = 0 \<and> lastRepTime st = 0
     \<and> sg_elbowAvg sgA = 70 \<and> shoulderDrop sgA b = 35 \<and> sg_wristsUnder sgA
     \<and> sg_elbowAvg sgB = 170 \<and> shoulderDrop sgB b = 10
     \<and> t0 + 300 \<ge> 800"
  let ?sA = "repTransition (downDetected sgA b) (upDetected sgA b) t0 st"
  let ?sB = "repTransition (downDetected sgB b) (upDetected sgB b) (t0 + 300) ?sA"
  from h have a: "downDetected sgA b" "\<not> upDetected sgA b"
    by (simp_all add: downDetected_def upDetected_def DOWN_ANGLE_THRESHOLD_def
          UP_ANGLE_THRESHOLD_def)
  from h have b: "\<not> downDetected sgB b" "upDetected sgB b"
    by (simp_all add: downDetected_def upDetected_def DOWN_ANGLE_THRESHOLD_def
          UP_ANGLE_THRESHOLD_def)
  from h have ea: "evaluateSignals sgA (t0 + 0) st = Inr ?sA"
    by (simp add: evaluateSignals_def)
  from h a have sA: "lastPosition ?sA = Down" "pushCount ?sA = 0" "lastDownTime ?sA = t0"
    "lastRepTime ?sA = 0" "baseline ?sA = Some b"
    by (simp_all add: repTransition_lastPosition repTransition_pushCount
          repTransition_lastDownTime repTransition_lastRepTime repTransition_baseline)
  from sA have eb: "evaluateSignals sgB (t0 + 300) ?sA = Inr ?sB"
    by (simp add: evaluateSignals_def)
  from h sA have g: "(t0 + 300) - lastDownTime ?sA = 300" "(t0 + 300) - lastRepTime ?sA \<ge> 800"
    by simp_all
  from h b sA have sB: "pushCount ?sB = 1" "lastPosition ?sB = Up" "lastRepTime ?sB = t0 + 300"
    by (simp_all add: repTransition_lastPosition repTransition_pushCount
          repTransition_lastRepTime)
  from ea eb sA g sB
  show "\<exists>sA sB. evaluateSignals sgA (t0 + 0) st = Inr sA \<and> lastPosition sA = Down
          \<and> pushCount sA = 0 \<and> lastDownTime sA = t0 \<and> lastRepTime sA = 0
          \<and> (t0 + 300) - lastDownTime sA = 300
          \<and> (t0 + 300) - lastRepTime sA \<ge> 800
          \<and> evaluateSignals sgB (t0 + 300) sA = Inr sB
          \<and> pushCount sB = 1 \<and> lastPosition sB = Up \<and> lastRepTime sB = t0 + 300"
    by blast
next
  assume "minFirstFrameClock \<le> t0"
  then show "t0 + 300 \<ge> 800"
    by (simp add: minFirstFrameClock_def COUNTDOWN_SECONDS_def tries_def)
next
  show "minFirstFrameClock = 11020"
    by (simp add: minFirstFrameClock_def COUNTDOWN_SECONDS_def tries_def)
qed

text \<open>
  The scenario in the session that calibration on the straight-arm pose gives, with the
  first frame at the earliest possible clock reading.
\<close>

theorem first_rep_scenario_witness:
  "step (CalibrationFinished steadySource) readySession = freshSession
   \<and> (\<exists>sA sB. evaluateSignals scenarioA 11020 freshSession = Inr sA \<and> lastPosition sA = Down
      \<and> pushCount sA = 0
      \<and> evaluateSignals scenarioB 11320 sA = Inr sB
      \<and> pushCount sB = 1 \<and> lastPosition sB = Up)"
proof -
  have h: "baseline freshSession = Some exampleBaseline
     \<and> shoulderY exampleBaseline = 100 \<and> shoulderDropThreshold exampleBaseline = 36
     \<and> lastPosition freshSession = Up \<and> pushCount freshSession = 0
     \<and> lastRepTime freshSession = 0
     \<and> sg_elbowAvg scenarioA = 70 \<and> shoulderDrop scenarioA exampleBaseline = 35
     \<and> sg_wristsUnder scenarioA
     \<and> sg_elbowAvg scenarioB = 170 \<and> shoulderDrop scenarioB exampleBaseline = 10"
    by (simp add: freshSession_def exampleBaseline_def scenarioA_def scenarioB_def
          shoulderDrop_def)
  from first_rep_scenario [of freshSession exampleBaseline scenarioA scenarioB 11020]
  have m: "minFirstFrameClock \<le> (11020::real)" "(11020::real) + 300 \<ge> 800"
    by simp_all
  from first_rep_scenario [of freshSession exampleBaseline scenarioA scenarioB 11020] h m
  have "\<exists>sA sB. evaluateSignals scenarioA 11020 freshSession = Inr sA \<and> lastPosition sA = Down
      \<and> pushCount sA = 0
      \<and> evaluateSignals scenarioB 11320 sA = Inr sB
      \<and> pushCount sB = 1 \<and> lastPosition sB = Up"
    by auto
  with fresh_from_ready show ?thesis by simp
qed

section \<open>Low-confidence frames\<close>

text \<open>
  Claim C6. \<open>getMidpointY\<close> returns \<open>null\<close> whenever one of its two keypoints has a
  confidence below 0.35. When one of the shoulder keypoints (5 and 6) has a confidence
  below 0.35, the frame yields no signals, \<open>evaluateForPushUp\<close> returns with the state as
  it was, and the whole iteration of the detection loop leaves position, timestamps,
  count and feedback text unchanged.
\<close>

theorem low_confidence_absent:
  "(aIdx < length (keypoints p) \<and> bIdx < length (keypoints p)
      \<and> (confidence (keypoints p ! aIdx) < 0.35 \<or> confidence (keypoints p ! bIdx) < 0.35)
    \<longrightarrow> getMidpointY p aIdx bIdx = Inr None)
   \<and> (10 < length (keypoints p)
      \<and> (confidence (keypoints p ! 5) < 0.35 \<or> confidence (keypoints p ! 6) < 0.35)
    \<longrightarrow> frameSignals p = Inr None \<and> evaluateForPushUp p now st = Inr st)
   \<and> (6 < length (keypoints p)
      \<and> (confidence (keypoints p ! 5) < 0.35 \<or> confidence (keypoints p ! 6) < 0.35)
    \<longrightarrow> step (AnimationFrame (Resolves (Some (p # ps))) now) st = st)"
proof (intro conjI impI)
  assume "aIdx < length (keypoints p) \<and> bIdx < length (keypoints p)
      \<and> (confidence (keypoints p ! aIdx) < 0.35 \<or> confidence (keypoints p ! bIdx) < 0.35)"
  then show "getMidpointY p aIdx bIdx = Inr None"
    by (auto simp: getMidpointY_def getKey_def Let_def)
next
  assume h: "10 < length (keypoints p)
      \<and> (confidence (keypoints p ! 5) < 0.35 \<or> confidence (keypoints p ! 6) < 0.35)"
  then show fs: "frameSignals p = Inr None"
    by (auto simp: frameSignals_def getKey_def Let_def)
  then show "evaluateForPushUp p now st = Inr st"
    by (simp add: evaluateForPushUp_def)
next
  assume h: "6 < length (keypoints p)
      \<and> (confidence (keypoints p ! 5) < 0.35 \<or> confidence (keypoints p ! 6) < 0.35)"
  show "step (AnimationFrame (Resolves (Some (p # ps))) now) st = st"
  proof (cases "10 < length (keypoints p)")
    case False
    with h have "frameSignals p = Inl TypeError"
      by (auto simp: frameSignals_def getKey_def Let_def split: sum.splits)
    then show ?thesis
      by (simp add: runDetectionLoop_def evaluateForPushUp_def split: sum.splits)
  next
    case True
    with h have "frameSignals p = Inr None"
      by (auto simp: frameSignals_def getKey_def Let_def)
    then show ?thesis
      by (simp add: runDetectionLoop_def evaluateForPushUp_def split: sum.splits)
  qed
qed

theorem low_confidence_absent_witness:
  "getMidpointY occludedPose 5 6 = Inr None
   \<and> frameSignals occludedPose = Inr None
   \<and> evaluateForPushUp occludedPose 1300 downSession = Inr downSession
   \<and> step (AnimationFrame (Resolves (Some [occludedPose])) 1300) downSession = downSession"
proof -
  have h: "5 < length (keypoints occludedPose) \<and> 6 < length (keypoints occludedPose)
      \<and> 10 < length (keypoints occludedPose)
      \<and> confidence (keypoints occludedPose ! 5) < 0.35"
    by (simp add: occludedPose_def confidence_def kp_def)
  from low_confidence_absent [of 5 occludedPose 6 1300 downSession "[]"] h
  show ?thesis by simp
qed


section \<open>The detection predicates\<close>

text \<open>
  Claim C3. For a frame whose shoulders both have confidence at least 0.35, and any
  baseline, the signals are computed, and the predicates that drive the state machine are
  those of the specification: \<open>downDetected\<close> iff the averaged elbow angle is below 90,
  the shoulder drop exceeds 0.85 times the baseline's drop threshold and \<open>wristsUnder\<close>
  holds; \<open>upDetected\<close> iff the averaged elbow angle exceeds 160 and the shoulder drop is
  below 0.45 times the threshold; \<open>wristsUnder\<close> iff on both sides the wrist confidence is
  at least 0.25 and the wrist is horizontally closer to its shoulder than 0.9 times the
  current shoulder width.
\<close>

theorem detection_predicates_spec:
  "getKey p 5 = Inr leftShoulder \<and> getKey p 6 = Inr rightShoulder
     \<and> getKey p 7 = Inr leftElbow \<and> getKey p 8 = Inr rightElbow
     \<and> getKey p 9 = Inr leftWrist \<and> getKey p 10 = Inr rightWrist
     \<and> key_score leftShoulder \<ge> 0.35 \<and> key_score rightShoulder \<ge> 0.35
     \<and> baseline st = Some b
   \<longrightarrow> (\<exists>sg. frameSignals p = Inr (Some sg)
          \<and> sg_elbowAvg sg
              = (angleDeg leftShoulder leftElbow leftWrist
                 + angleDeg rightShoulder rightElbow rightWrist) / 2
          \<and> shoulderDrop sg b = (key_y leftShoulder + key_y rightShoulder) / 2 - shoulderY b
          \<and> (sg_wristsUnder sg
               \<longleftrightarrow> spec_wristsUnder leftShoulder rightShoulder leftWrist rightWrist)
          \<and> (downDetected sg b
               \<longleftrightarrow> spec_downDetected (sg_elbowAvg sg) (shoulderDrop sg b)
                     (shoulderDropThreshold b) (sg_wristsUnder sg))
          \<and> (upDetected sg b
               \<longleftrightarrow> spec_upDetected (sg_elbowAvg sg) (shoulderDrop sg b)
                     (shoulderDropThreshold b))
          \<and> evaluateForPushUp p now st
              = Inr (repTransition
                  (spec_downDetected (sg_elbowAvg sg) (shoulderDrop sg b)
                     (shoulderDropThreshold b)
                     (spec_wristsUnder leftShoulder rightShoulder leftWrist rightWrist))
                  (spec_upDetected (sg_elbowAvg sg) (shoulderDrop sg b)
                     (shoulderDropThreshold b)) now st))"
proof
  assume h: "getKey p 5 = Inr leftShoulder \<and> getKey p 6 = Inr rightShoulder
     \<and> getKey p 7 = Inr leftElbow \<and> getKey p 8 = Inr rightElbow
     \<and> getKey p 9 = Inr leftWrist \<and> getKey p 10 = Inr rightWrist
     \<and> key_score leftShoulder \<ge> 0.35 \<and> key_score rightShoulder \<ge> 0.35
     \<and> baseline st = Some b"
  let ?sg = "\<lparr>sg_shoulderMidY = (key_y leftShoulder + key_y rightShoulder) / 2,
     sg_elbowAvg = (angleDeg leftShoulder leftElbow leftWrist
                    + angleDeg rightShoulder rightElbow rightWrist) / 2,
     sg_wristsUnder = wristsUnder leftShoulder rightShoulder leftWrist rightWrist\<rparr>"
  from h have fs: "frameSignals p = Inr (Some ?sg)"
    by (simp add: frameSignals_def Let_def)
  have wu: "wristsUnder leftShoulder rightShoulder leftWrist rightWrist
      \<longleftrightarrow> spec_wristsUnder leftShoulder rightShoulder leftWrist rightWrist"
    by (simp add: wristsUnder_def spec_wristsUnder_def Let_def mult.commute)
  have dd: "downDetected ?sg b
      \<longleftrightarrow> spec_downDetected (sg_elbowAvg ?sg) (shoulderDrop ?sg b) (shoulderDropThreshold b)
            (sg_wristsUnder ?sg)"
    by (simp add: downDetected_def spec_downDetected_def DOWN_ANGLE_THRESHOLD_def mult.commute)
  have ud: "upDetected ?sg b
      \<longleftrightarrow> spec_upDetected (sg_elbowAvg ?sg) (shoulderDrop ?sg b) (shoulderDropThreshold b)"
    by (simp add: upDetected_def spec_upDetected_def UP_ANGLE_THRESHOLD_def mult.commute)
  from h fs have ev: "evaluateForPushUp p now st
      = Inr (repTransition (downDetected ?sg b) (upDetected ?sg b) now st)"
    by (simp add: evaluateForPushUp_signals)
  have c1: "sg_elbowAvg ?sg = (angleDeg leftShoulder leftElbow leftWrist
                 + angleDeg rightShoulder rightElbow rightWrist) / 2"
    by simp
  have c2: "shoulderDrop ?sg b = (key_y leftShoulder + key_y rightShoulder) / 2 - shoulderY b"
    by (simp add: shoulderDrop_def)
  have c3: "sg_wristsUnder ?sg
      \<longleftrightarrow> spec_wristsUnder leftShoulder rightShoulder leftWrist rightWrist"
    using wu by simp
  have c4: "evaluateForPushUp p now st
              = Inr (repTransition
                  (spec_downDetected (sg_elbowAvg ?sg) (shoulderDrop ?sg b)
                     (shoulderDropThreshold b)
                     (spec_wristsUnder leftShoulder rightShoulder leftWrist rightWrist))
                  (spec_upDetected (sg_elbowAvg ?sg) (shoulderDrop ?sg b)
                     (shoulderDropThreshold b)) now st)"
    using ev dd ud c3 by simp
  show "\<exists>sg. frameSignals p = Inr (Some sg)
          \<and> sg_elbowAvg sg
              = (angleDeg leftShoulder leftElbow leftWrist
                 + angleDeg rightShoulder rightElbow rightWrist) / 2
          \<and> shoulderDrop sg b = (key_y leftShoulder + key_y rightShoulder) / 2 - shoulderY b
          \<and> (sg_wristsUnder sg
               \<longleftrightarrow> spec_wristsUnder leftShoulder rightShoulder leftWrist rightWrist)
          \<and> (downDetected sg b
               \<longleftrightarrow> spec_downDetected (sg_elbowAvg sg) (shoulderDrop sg b)
                     (shoulderDropThreshold b) (sg_wristsUnder sg))
          \<and> (upDetected sg b
               \<longleftrightarrow> spec_upDetected (sg_elbowAvg sg) (shoulderDrop sg b)
                     (shoulderDropThreshold b))
          \<and> evaluateForPushUp p now st
              = Inr (repTransition
                  (spec_downDetected (sg_elbowAvg sg) (shoulderDrop sg b)
                     (shoulderDropThreshold b)
                     (spec_wristsUnder leftShoulder rightShoulder leftWrist rightWrist))
                  (spec_upDetected (sg_elbowAvg sg) (shoulderDrop sg b)
                     (shoulderDropThreshold b)) now st)"
    using fs c1 c2 c3 dd ud c4 by (intro exI [of _ ?sg] conjI)
qed


theorem detection_predicates_spec_witness:
  "\<exists>sg. frameSignals bottomPose = Inr (Some sg)
      \<and> sg_elbowAvg sg = 0 \<and> shoulderDrop sg exampleBaseline = 35
      \<and> sg_wristsUnder sg \<and> downDetected sg exampleBaseline
      \<and> \<not> upDetected sg exampleBaseline"
proof -
  let ?k = "\<lambda>u v s. \<lparr>key_x = u, key_y = v, key_score = s\<rparr>"
  have h: "getKey bottomPose 5 = Inr (?k 100 135 0.9) \<and> getKey bottomPose 6 = Inr (?k 140 135 0.9)
     \<and> getKey bottomPose 7 = Inr (?k 100 185 0.8) \<and> getKey bottomPose 8 = Inr (?k 140 185 0.8)
     \<and> getKey bottomPose 9 = Inr (?k 100 145 0.7) \<and> getKey bottomPose 10 = Inr (?k 140 145 0.7)
     \<and> key_score (?k 100 135 0.9) \<ge> 0.35 \<and> key_score (?k 140 135 0.9) \<ge> 0.35
     \<and> baseline downSession = Some exampleBaseline"
    by (simp add: bottomPose_def getKey_kp downSession_def)
  have a: "angleDeg (?k 100 135 0.9) (?k 100 185 0.8) (?k 100 145 0.7) = 0"
    "angleDeg (?k 140 135 0.9) (?k 140 185 0.8) (?k 140 145 0.7) = 0"
    by (simp_all add: angleDeg_def hypot_zero_left)
  have w: "spec_wristsUnder (?k 100 135 0.9) (?k 140 135 0.9) (?k 100 145 0.7) (?k 140 145 0.7)"
    by (simp add: spec_wristsUnder_def)
  have e: "shoulderY exampleBaseline = 100" "shoulderDropThreshold exampleBaseline = 36"
    by (simp_all add: exampleBaseline_def)
  from detection_predicates_spec [of bottomPose "?k 100 135 0.9" "?k 140 135 0.9"
      "?k 100 185 0.8" "?k 140 185 0.8" "?k 100 145 0.7" "?k 140 145 0.7"
      downSession exampleBaseline 1100] h
  obtain sg where sg: "frameSignals bottomPose = Inr (Some sg)"
    "sg_elbowAvg sg = (angleDeg (?k 100 135 0.9) (?k 100 185 0.8) (?k 100 145 0.7)
        + angleDeg (?k 140 135 0.9) (?k 140 185 0.8) (?k 140 145 0.7)) / 2"
    "shoulderDrop sg exampleBaseline = (135 + 135) / 2 - shoulderY exampleBaseline"
    "sg_wristsUnder sg
      \<longleftrightarrow> spec_wristsUnder (?k 100 135 0.9) (?k 140 135 0.9) (?k 100 145 0.7) (?k 140 145 0.7)"
    "downDetected sg exampleBaseline
      \<longleftrightarrow> spec_downDetected (sg_elbowAvg sg) (shoulderDrop sg exampleBaseline)
            (shoulderDropThreshold exampleBaseline) (sg_wristsUnder sg)"
    "upDetected sg exampleBaseline
      \<longleftrightarrow> spec_upDetected (sg_elbowAvg sg) (shoulderDrop sg exampleBaseline)
            (shoulderDropThreshold exampleBaseline)"
    by auto
  from sg a w e have "sg_elbowAvg sg = 0 \<and> shoulderDrop sg exampleBaseline = 35
      \<and> sg_wristsUnder sg \<and> downDetected sg exampleBaseline
      \<and> \<not> upDetected sg exampleBaseline"
    by (simp add: spec_downDetected_def spec_upDetected_def)
  with sg(1) show ?thesis by blast
qed

section \<open>Calibration samples\<close>

text \<open>
  Claim C4, as stated, fails twice. The shoulder width of an attempt is not floored at
  1: shoulders half a pixel apart give the width 0.5, since only the width 0 is replaced
  by 1. And a sample with both midpoints valid and a width above 10 is rejected when a
  midpoint is exactly 0, since line 150 tests the midpoints for truthiness.
\<close>

theorem calibrationSample_counterexample:
  "getKey narrowPose 5 = Inr \<lparr>key_x = 100.5, key_y = 100, key_score = 0.9\<rparr>
   \<and> getKey narrowPose 6 = Inr \<lparr>key_x = 100, key_y = 100, key_score = 0.9\<rparr>
   \<and> attemptShoulderWidth \<lparr>key_x = 100.5, key_y = 100, key_score = 0.9\<rparr>
        \<lparr>key_x = 100, key_y = 100, key_score = 0.9\<rparr> = 0.5
   \<and> attemptShoulderWidth \<lparr>key_x = 100.5, key_y = 100, key_score = 0.9\<rparr>
        \<lparr>key_x = 100, key_y = 100, key_score = 0.9\<rparr> \<noteq> max 1 \<bar>100.5 - 100\<bar>
   \<and> getMidpointY topEdgePose 5 6 = Inr (Some 0)
   \<and> getMidpointY topEdgePose 11 12 = Inr (Some 200)
   \<and> getKey topEdgePose 5 = Inr \<lparr>key_x = 100, key_y = 0, key_score = 0.9\<rparr>
   \<and> getKey topEdgePose 6 = Inr \<lparr>key_x = 140, key_y = 0, key_score = 0.9\<rparr>
   \<and> attemptShoulderWidth \<lparr>key_x = 100, key_y = 0, key_score = 0.9\<rparr>
        \<lparr>key_x = 140, key_y = 0, key_score = 0.9\<rparr> = 40
   \<and> calibrationSample topEdgePose = Inr None"
  by (simp add: narrowPose_def topEdgePose_def getKey_kp getMidpointY_kp
        attemptShoulderWidth_def calibrationSample_def)

text \<open>
  Claim C4, amended. For every pose fetched during calibration whose keypoints 5, 6, 11
  and 12 exist, the shoulder width of the attempt is \<open>|leftShoulder.x - rightShoulder.x|\<close>,
  with the value 0 replaced by 1. A sample is pushed to the collected list only if both
  midpoints are valid (all four confidences at least 0.35) and the width is above 10, and
  it then holds the two midpoints and the width; and it is pushed whenever both midpoints
  are valid and different from 0 and the width is above 10.
\<close>

theorem calibrationSample_spec:
  "getKey p 5 = Inr l \<and> getKey p 6 = Inr r \<and> getKey p 11 = Inr hl \<and> getKey p 12 = Inr hr
   \<longrightarrow> attemptShoulderWidth l r
         = (if \<bar>key_x l - key_x r\<bar> = 0 then 1 else \<bar>key_x l - key_x r\<bar>)
       \<and> (\<forall>smp. calibrationSample p = Inr (Some smp)
            \<longrightarrow> getMidpointY p 5 6 = Inr (Some (shoulderY smp))
                \<and> getMidpointY p 11 12 = Inr (Some (hipY smp))
                \<and> key_score l \<ge> 0.35 \<and> key_score r \<ge> 0.35
                \<and> key_score hl \<ge> 0.35 \<and> key_score hr \<ge> 0.35
                \<and> shoulderWidth smp = attemptShoulderWidth l r
                \<and> shoulderWidth smp > 10)
       \<and> (key_score l \<ge> 0.35 \<and> key_score r \<ge> 0.35
            \<and> key_score hl \<ge> 0.35 \<and> key_score hr \<ge> 0.35
            \<and> (key_y l + key_y r) / 2 \<noteq> 0 \<and> (key_y hl + key_y hr) / 2 \<noteq> 0
            \<and> attemptShoulderWidth l r > 10
          \<longrightarrow> calibrationSample p
                = Inr (Some \<lparr>shoulderY = (key_y l + key_y r) / 2,
                             hipY = (key_y hl + key_y hr) / 2,
                             shoulderWidth = \<bar>key_x l - key_x r\<bar>\<rparr>))
       \<and> (\<exists>so. calibrationSample p = Inr so
            \<and> collectSamples (Resolves (Some (p # ps)) # rs) collected
                = collectSamples rs (case so of None \<Rightarrow> collected
                                     | Some smp \<Rightarrow> collected @ [smp]))"
proof
  assume h: "getKey p 5 = Inr l \<and> getKey p 6 = Inr r \<and> getKey p 11 = Inr hl
      \<and> getKey p 12 = Inr hr"
  have w: "attemptShoulderWidth l r
         = (if \<bar>key_x l - key_x r\<bar> = 0 then 1 else \<bar>key_x l - key_x r\<bar>)"
    by (simp add: attemptShoulderWidth_def Let_def)
  from h have s: "getMidpointY p 5 6
      = Inr (if key_score l < 0.35 \<or> key_score r < 0.35 then None
             else Some ((key_y l + key_y r) / 2))"
    by (simp add: getMidpointY_def)
  from h have hip: "getMidpointY p 11 12
      = Inr (if key_score hl < 0.35 \<or> key_score hr < 0.35 then None
             else Some ((key_y hl + key_y hr) / 2))"
    by (simp add: getMidpointY_def)
  have acc: "\<forall>smp. calibrationSample p = Inr (Some smp)
            \<longrightarrow> getMidpointY p 5 6 = Inr (Some (shoulderY smp))
                \<and> getMidpointY p 11 12 = Inr (Some (hipY smp))
                \<and> key_score l \<ge> 0.35 \<and> key_score r \<ge> 0.35
                \<and> key_score hl \<ge> 0.35 \<and> key_score hr \<ge> 0.35
                \<and> shoulderWidth smp = attemptShoulderWidth l r
                \<and> shoulderWidth smp > 10"
    using h by (auto simp: calibrationSample_def s hip Let_def split: if_splits)
  have suff: "key_score l \<ge> 0.35 \<and> key_score r \<ge> 0.35
            \<and> key_score hl \<ge> 0.35 \<and> key_score hr \<ge> 0.35
            \<and> (key_y l + key_y r) / 2 \<noteq> 0 \<and> (key_y hl + key_y hr) / 2 \<noteq> 0
            \<and> attemptShoulderWidth l r > 10
          \<longrightarrow> calibrationSample p
                = Inr (Some \<lparr>shoulderY = (key_y l + key_y r) / 2,
                             hipY = (key_y hl + key_y hr) / 2,
                             shoulderWidth = \<bar>key_x l - key_x r\<bar>\<rparr>)"
    using h by (auto simp: calibrationSample_def s hip Let_def attemptShoulderWidth_def)
  have "\<exists>so. calibrationSample p = Inr so"
    using h by (auto simp: calibrationSample_def s hip Let_def)
  then obtain so where so: "calibrationSample p = Inr so" by blast
  then have "collectSamples (Resolves (Some (p # ps)) # rs) collected
                = collectSamples rs (case so of None \<Rightarrow> collected
                                     | Some smp \<Rightarrow> collected @ [smp])"
    by (cases so) simp_all
  with so have loop: "\<exists>so. calibrationSample p = Inr so
            \<and> collectSamples (Resolves (Some (p # ps)) # rs) collected
                = collectSamples rs (case so of None \<Rightarrow> collected
                                     | Some smp \<Rightarrow> collected @ [smp])"
    by blast
  from w acc suff loop
  show "attemptShoulderWidth l r
         = (if \<bar>key_x l - key_x r\<bar> = 0 then 1 else \<bar>key_x l - key_x r\<bar>)
       \<and> (\<forall>smp. calibrationSample p = Inr (Some smp)
            \<longrightarrow> getMidpointY p 5 6 = Inr (Some (shoulderY smp))
                \<and> getMidpointY p 11 12 = Inr (Some (hipY smp))
                \<and> key_score l \<ge> 0.35 \<and> key_score r \<ge> 0.35
                \<and> key_score hl \<ge> 0.35 \<and> key_score hr \<ge> 0.35
                \<and> shoulderWidth smp = attemptShoulderWidth l r
                \<and> shoulderWidth smp > 10)
       \<and> (key_score l \<ge> 0.35 \<and> key_score r \<ge> 0.35
            \<and> key_score hl \<ge> 0.35 \<and> key_score hr \<ge> 0.35
            \<and> (key_y l + key_y r) / 2 \<noteq> 0 \<and> (key_y hl + key_y hr) / 2 \<noteq> 0
            \<and> attemptShoulderWidth l r > 10
          \<longrightarrow> calibrationSample p
                = Inr (Some \<lparr>shoulderY = (key_y l + key_y r) / 2,
                             hipY = (key_y hl + key_y hr) / 2,
                             shoulderWidth = \<bar>key_x l - key_x r\<bar>\<rparr>))
       \<and> (\<exists>so. calibrationSample p = Inr so
            \<and> collectSamples (Resolves (Some (p # ps)) # rs) collected
                = collectSamples rs (case so of None \<Rightarrow> collected
                                     | Some smp \<Rightarrow> collected @ [smp]))"
    by (intro conjI)
qed

theorem calibrationSample_spec_witness:
  "attemptShoulderWidth \<lparr>key_x = 100, key_y = 100, key_score = 0.9\<rparr>
        \<lparr>key_x = 140, key_y = 100, key_score = 0.9\<rparr> = 40
   \<and> calibrationSample topPose = Inr (Some \<lparr>shoulderY = 100, hipY = 300, shoulderWidth = 40\<rparr>)
   \<and> getMidpointY topPose 5 6 = Inr (Some 100)
   \<and> getMidpointY topPose 11 12 = Inr (Some 300)"
proof -
  let ?k = "\<lambda>u v s. \<lparr>key_x = u, key_y = v, key_score = s\<rparr>"
  have h: "getKey topPose 5 = Inr (?k 100 100 0.9) \<and> getKey topPose 6 = Inr (?k 140 100 0.9)
      \<and> getKey topPose 11 = Inr (?k 105 300 0.9) \<and> getKey topPose 12 = Inr (?k 135 300 0.9)"
    by (simp add: topPose_def getKey_kp)
  have g: "key_score (?k 100 100 0.9) \<ge> 0.35 \<and> key_score (?k 140 100 0.9) \<ge> 0.35
      \<and> key_score (?k 105 300 0.9) \<ge> 0.35 \<and> key_score (?k 135 300 0.9) \<ge> 0.35
      \<and> (key_y (?k 100 100 0.9) + key_y (?k 140 100 0.9)) / 2 \<noteq> 0
      \<and> (key_y (?k 105 300 0.9) + key_y (?k 135 300 0.9)) / 2 \<noteq> 0"
    by simp
  from calibrationSample_spec [of topPose "?k 100 100 0.9" "?k 140 100 0.9"
       "?k 105 300 0.9" "?k 135 300 0.9" "[]" "[]" "[]"] h g
  show ?thesis by (auto split: if_splits)
qed


section \<open>Calibration result\<close>




end
